theory Spec2Isabelle
  imports Main "HOL-Library.Sublist"
begin

section \<open>Python values and their rendering\<close>

text \<open>
  The library is written in Python 3.  A Python \<open>str\<close> is modelled as a HOL
  \<open>string\<close>, one list element per character (the HOL character type covers the
  code points 0 to 255), so that \<open>length\<close> is Python's \<open>len\<close>.  The values that
  travel through \<open>*args\<close> and \<open>**kwargs\<close> are modelled by \<open>pyval\<close>: \<open>None\<close>,
  booleans, unbounded integers, strings, tuples, lists and dictionaries (an
  association list in insertion order, as Python dictionaries keep it).
\<close>

datatype pyval = PNone | PBool bool | PInt int | PStr string
  | PTuple "pyval list" | PList "pyval list" | PDict "(pyval \<times> pyval) list"

text \<open>Truth value of an object, as \<open>if x:\<close> tests it.\<close>

fun truthy :: "pyval \<Rightarrow> bool" where
  "truthy PNone = False"
| "truthy (PBool b) = b"
| "truthy (PInt i) = (i \<noteq> 0)"
| "truthy (PStr s) = (s \<noteq> [])"
| "truthy (PTuple vs) = (vs \<noteq> [])"
| "truthy (PList vs) = (vs \<noteq> [])"
| "truthy (PDict kvs) = (kvs \<noteq> [])"

text \<open>Decimal rendering of integers (\<open>str\<close> and \<open>repr\<close> of an \<open>int\<close>).\<close>

fun str_nat :: "nat \<Rightarrow> string" where
  "str_nat n = (if n < 10 then [''0123456789'' ! n]
                else str_nat (n div 10) @ [''0123456789'' ! (n mod 10)])"

declare str_nat.simps [simp del]

definition str_int :: "int \<Rightarrow> string" where
  "str_int i = (if i < 0 then CHR ''-'' # str_nat (nat (- i)) else str_nat (nat i))"

text \<open>\<open>sep.join(xs)\<close>.\<close>

fun join :: "string \<Rightarrow> string list \<Rightarrow> string" where
  "join sep [] = []"
| "join sep [x] = x"
| "join sep (x # y # ys) = x @ sep @ join sep (y # ys)"

text \<open>
  \<open>repr\<close> of a string: single quotes unless the string holds a single quote and
  no double quote; the quote character and the backslash are escaped, tab, newline
  and carriage return are written \<open>\t\<close>, \<open>\n\<close>, \<open>\r\<close>, and every other
  non-printable character (below 0x20, 0x7f to 0xa0, 0xad) as \<open>\xNN\<close>.
\<close>

definition hex2 :: "nat \<Rightarrow> string" where
  "hex2 n = [''0123456789abcdef'' ! (n div 16 mod 16), ''0123456789abcdef'' ! (n mod 16)]"

definition repr_char :: "char \<Rightarrow> char \<Rightarrow> string" where
  "repr_char q c =
     (let n = (of_char c :: nat) in
      if c = q \<or> c = CHR 0x5C then [CHR 0x5C, c]
      else if c = CHR 0x09 then [CHR 0x5C, CHR ''t'']
      else if c = CHR 0x0A then [CHR 0x5C, CHR ''n'']
      else if c = CHR 0x0D then [CHR 0x5C, CHR ''r'']
      else if n < 32 \<or> n = 127 \<or> (128 \<le> n \<and> n \<le> 160) \<or> n = 173
        then CHR 0x5C # CHR ''x'' # hex2 n
      else [c])"

definition repr_str :: "string \<Rightarrow> string" where
  "repr_str s =
     (let q = (if CHR 0x27 \<in> set s \<and> CHR 0x22 \<notin> set s then CHR 0x22 else CHR 0x27)
      in q # concat (map (repr_char q) s) @ [q])"

text \<open>
  \<open>repr\<close> of a value.  A one-element tuple is written with its trailing comma.
  \<open>str\<close> of a tuple or of a dictionary is its \<open>repr\<close>, which is what an f-string
  field \<open>{args}\<close> or \<open>{kwargs}\<close> inserts.
\<close>

fun repr :: "pyval \<Rightarrow> string" where
  "repr PNone = ''None''"
| "repr (PBool b) = (if b then ''True'' else ''False'')"
| "repr (PInt i) = str_int i"
| "repr (PStr s) = repr_str s"
| "repr (PTuple vs) =
     (case vs of [v] \<Rightarrow> ''('' @ repr v @ '',)''
      | _ \<Rightarrow> ''('' @ join '', '' (map repr vs) @ '')'')"
| "repr (PList vs) = ''['' @ join '', '' (map repr vs) @ '']''"
| "repr (PDict kvs) =
     ''{'' @ join '', '' (map (\<lambda>(k, v). repr k @ '': '' @ repr v) kvs) @ ''}''"

text \<open>
  Keyword arguments: names (strings) with their values, in call order.  The
  dictionary a function receives as \<open>**kwargs\<close> has these names as string keys.
\<close>

type_synonym kwargs = "(string \<times> pyval) list"

definition kwargs_dict :: "kwargs \<Rightarrow> pyval" where
  "kwargs_dict kw = PDict (map (\<lambda>(k, v). (PStr k, v)) kw)"

section \<open>Exceptions\<close>

text \<open>
  An exception object is modelled by the method resolution order of its class (the
  names of the class and of its ancestors, ending in \<open>BaseException\<close>) and its
  message.  \<open>isinstance e c\<close> is Python's \<open>isinstance(e, c)\<close> for an exception
  class \<open>c\<close>.  A call that may raise returns \<open>exc + 'a\<close>, with \<open>Inl\<close> the raised
  exception.
\<close>

datatype exc = Exc (mro: "string list") (exc_message: string)

definition isinstance :: "exc \<Rightarrow> string \<Rightarrow> bool" where
  "isinstance e c = (c \<in> set (mro e))"

definition ValueError :: "string \<Rightarrow> exc" where
  "ValueError m = Exc [''ValueError'', ''Exception'', ''BaseException''] m"

definition TypeError :: "string \<Rightarrow> exc" where
  "TypeError m = Exc [''TypeError'', ''Exception'', ''BaseException''] m"

definition ZeroDivisionError :: "string \<Rightarrow> exc" where
  "ZeroDivisionError m =
     Exc [''ZeroDivisionError'', ''ArithmeticError'', ''Exception'', ''BaseException''] m"

definition KeyboardInterrupt :: exc where
  "KeyboardInterrupt = Exc [''KeyboardInterrupt'', ''BaseException''] []"

section \<open>logger\_tools: message composition\<close>

text \<open>
  \<open>_make_message(msg, f_name, *args, **kwargs)\<close>.  The tag \<open>f_name\<close> is an
  optional string; the f-string renders \<open>None\<close> as the text \<open>None\<close>.  A tuple and
  a dictionary are true exactly when they are not empty.
\<close>

definition make_message :: "string \<Rightarrow> string option \<Rightarrow> pyval list \<Rightarrow> kwargs \<Rightarrow> string" where
  "make_message msg f_name args kwargs =
     (let m0 = ''['' @ (case f_name of None \<Rightarrow> ''None'' | Some t \<Rightarrow> t) @ ''] - '' @ msg;
          m1 = (if args \<noteq> [] \<and> length args > 0
                then m0 @ '' | '' @ repr (PTuple args) else m0);
          m2 = (if kwargs \<noteq> [] \<and> length kwargs > 0
                then m1 @ '' | '' @ repr (kwargs_dict kwargs) else m1)
      in m2)"

section \<open>logger\_tools: ColoredFormatter\<close>

definition FORMAT :: string where
  "FORMAT = ''%(asctime)s - (%(lineno)d):[%(levelname)s] --> %(message)s''"

text \<open>The numeric severity levels of the standard \<open>logging\<close> module.\<close>

definition DEBUG :: int where "DEBUG = 10"
definition INFO :: int where "INFO = 20"
definition WARNING :: int where "WARNING = 30"
definition ERROR :: int where "ERROR = 40"
definition CRITICAL :: int where "CRITICAL = 50"

definition levels :: "int list" where
  "levels = [DEBUG, INFO, WARNING, ERROR, CRITICAL]"

text \<open>
  The colour strings of \<open>ColoredFormatter.__init__\<close>; \<open>\033\<close> and \<open>\x1b\<close> both
  denote the escape character, code 27.
\<close>

definition ESC :: char where "ESC = CHR 0x1B"

definition grey :: string where "grey = ESC # ''[90m''"
definition blue :: string where "blue = ESC # ''[94m''"
definition yellow :: string where "yellow = ESC # ''[93m''"
definition red :: string where "red = ESC # ''[91m''"
definition bold_red :: string where "bold_red = ESC # ''[31;1m''"
definition reset :: string where "reset = ESC # ''[0m''"

text \<open>
  The formatter object: its table \<open>self.formats\<close> (a dictionary from level
  numbers to templates) and the template handed to the base class.  The
  constructor of the base class, \<open>logging.Formatter.__init__\<close>, checks its
  template and may raise (from Python 3.8 on it raises \<open>ValueError\<close> for a
  template without a field); this check belongs to the \<open>logging\<close> module and is
  the parameter \<open>validate\<close>.  The constructor returns the object, or the
  exception.
\<close>

record ColoredFormatter =
  formats :: "int \<rightharpoonup> string"
  base_fmt :: string

definition ColoredFormatter_init ::
  "(string \<Rightarrow> exc option) \<Rightarrow> string \<Rightarrow> string \<Rightarrow> bool \<Rightarrow> exc + ColoredFormatter" where
  "ColoredFormatter_init validate name fmt colored =
     (let format = ''['' @ name @ ''] - '' @ fmt;
          self = \<lparr> formats =
                     (if colored then
                        [DEBUG \<mapsto> blue @ format @ reset,
                         INFO \<mapsto> grey @ format @ reset,
                         WARNING \<mapsto> yellow @ format @ reset,
                         ERROR \<mapsto> red @ format @ reset,
                         CRITICAL \<mapsto> bold_red @ format @ reset]
                      else
                        [DEBUG \<mapsto> format,
                         INFO \<mapsto> format,
                         WARNING \<mapsto> format,
                         ERROR \<mapsto> format,
                         CRITICAL \<mapsto> format]),
                   base_fmt = format \<rparr>
      in case validate format of Some e \<Rightarrow> Inl e | None \<Rightarrow> Inr self)"

text \<open>
  A log record of the \<open>logging\<close> module, with the attributes the templates refer
  to: the message text \<open>msg\<close> with its arguments \<open>args\<close>, and \<open>message\<close>, which
  a formatter fills in.
\<close>

record LogRecord =
  levelno :: int
  levelname :: string
  lineno :: int
  funcName :: string
  asctime :: string
  record_msg :: string
  record_args :: "pyval list"
  record_message :: string

text \<open>
  \<open>ColoredFormatter.format\<close>.  The lookup is \<open>dict.get\<close>, which yields \<open>None\<close>
  for a missing key and never raises \<open>KeyError\<close>.  The two library calls that
  follow, \<open>logging.Formatter(log_fmt)\<close> and \<open>formatter.format(record)\<close>, are
  the parameter \<open>Formatter_format\<close>: from the template, or \<open>None\<close>, and the
  record it gives the rendered text, or the exception the library raises.
\<close>

definition ColoredFormatter_format ::
  "(string option \<Rightarrow> LogRecord \<Rightarrow> exc + string) \<Rightarrow> ColoredFormatter \<Rightarrow> LogRecord \<Rightarrow> exc + string" where
  "ColoredFormatter_format Formatter_format self record =
     (let log_fmt = formats self (levelno record)
      in Formatter_format log_fmt record)"

text \<open>
  The colour the table gives each level, and the ANSI colour sequences a string
  contains: a sequence is the escape character, an opening bracket, digits and
  semicolons, and the letter m.  \<open>ansi_codes\<close> lists them in order of occurrence.
\<close>

definition color_of :: "int \<Rightarrow> string" where
  "color_of l = (if l = DEBUG then blue else if l = INFO then grey
                 else if l = WARNING then yellow else if l = ERROR then red else bold_red)"

definition is_param :: "char \<Rightarrow> bool" where
  "is_param c = (c \<in> set ''0123456789;'')"

definition sgr_at :: "string \<Rightarrow> string option" where
  "sgr_at s =
     (case s of
        e # b # rest \<Rightarrow>
          if e = ESC \<and> b = CHR ''[''
          then (case dropWhile is_param rest of
                  m # _ \<Rightarrow> if m = CHR ''m''
                            then Some (ESC # CHR ''['' # takeWhile is_param rest @ ''m'')
                            else None
                | [] \<Rightarrow> None)
          else None
      | _ \<Rightarrow> None)"

fun ansi_codes :: "string \<Rightarrow> string list" where
  "ansi_codes [] = []"
| "ansi_codes (c # cs) =
     (case sgr_at (c # cs) of Some code \<Rightarrow> code # ansi_codes cs | None \<Rightarrow> ansi_codes cs)"

section \<open>An executable model of the library's formatter\<close>

text \<open>
  For computing examples, \<open>logging.Formatter(fmt).format(record)\<close> is modelled on
  records without exception information: the template is \<open>fmt\<close>, or
  \<open>%(message)s\<close> when \<open>fmt\<close> is \<open>None\<close> or empty; \<open>record.getMessage()\<close>
  builds the message as \<open>msg % args\<close> when there are arguments; the template is
  then filled from the attributes of the record.  Of the conversions of the
  \<open>%\<close> operator the model has \<open>%s\<close>, \<open>%d\<close> and \<open>%%\<close>, without flags or
  widths, which is what the examples use; it is not used for any other.
\<close>

definition type_name :: "pyval \<Rightarrow> string" where
  "type_name v = (case v of PNone \<Rightarrow> ''NoneType'' | PBool b \<Rightarrow> ''bool'' | PInt i \<Rightarrow> ''int''
     | PStr s \<Rightarrow> ''str'' | PTuple vs \<Rightarrow> ''tuple'' | PList vs \<Rightarrow> ''list'' | PDict kvs \<Rightarrow> ''dict'')"

definition str_of :: "pyval \<Rightarrow> string" where
  "str_of v = (case v of PStr s \<Rightarrow> s | _ \<Rightarrow> repr v)"

definition convert :: "char \<Rightarrow> pyval \<Rightarrow> exc + string" where
  "convert c v =
     (if c = CHR ''s'' then Inr (str_of v)
      else case v of
             PInt i \<Rightarrow> Inr (str_int i)
           | PBool b \<Rightarrow> Inr (if b then ''1'' else ''0'')
           | _ \<Rightarrow> Inl (TypeError (''%d format: a real number is required, not '' @ type_name v)))"

definition prepend :: "string \<Rightarrow> exc + string \<Rightarrow> exc + string" where
  "prepend s r = (case r of Inl e \<Rightarrow> Inl e | Inr t \<Rightarrow> Inr (s @ t))"

text \<open>\<open>msg % args\<close> for a tuple of arguments; the flag says that a \<open>%\<close> was just read.\<close>

fun percent_args :: "bool \<Rightarrow> string \<Rightarrow> pyval list \<Rightarrow> exc + string" where
  "percent_args False [] args =
     (if args = [] then Inr []
      else Inl (TypeError ''not all arguments converted during string formatting''))"
| "percent_args True [] args = Inl (ValueError ''incomplete format'')"
| "percent_args False (c # cs) args =
     (if c = CHR ''%'' then percent_args True cs args
      else prepend [c] (percent_args False cs args))"
| "percent_args True (c # cs) args =
     (if c = CHR ''%'' then prepend ''%'' (percent_args False cs args)
      else if c = CHR ''s'' \<or> c = CHR ''d'' then
        (case args of
           [] \<Rightarrow> Inl (TypeError ''not enough arguments for format string'')
         | a # rest \<Rightarrow>
             (case convert c a of
                Inl e \<Rightarrow> Inl e
              | Inr t \<Rightarrow> prepend t (percent_args False cs rest)))
      else Inl (ValueError ''unsupported format character''))"

text \<open>\<open>fmt % dict\<close> for fields of the form \<open>%(key)s\<close> and \<open>%(key)d\<close>.\<close>

datatype fmt_mode = Text | After_percent | In_key string | After_key string

fun percent_dict :: "fmt_mode \<Rightarrow> string \<Rightarrow> (string \<Rightarrow> pyval option) \<Rightarrow> exc + string" where
  "percent_dict Text [] d = Inr []"
| "percent_dict mode [] d = Inl (ValueError ''incomplete format'')"
| "percent_dict Text (c # cs) d =
     (if c = CHR ''%'' then percent_dict After_percent cs d
      else prepend [c] (percent_dict Text cs d))"
| "percent_dict After_percent (c # cs) d =
     (if c = CHR ''('' then percent_dict (In_key []) cs d
      else if c = CHR ''%'' then prepend ''%'' (percent_dict Text cs d)
      else Inl (ValueError ''unsupported format character''))"
| "percent_dict (In_key k) (c # cs) d =
     (if c = CHR '')'' then percent_dict (After_key k) cs d
      else percent_dict (In_key (k @ [c])) cs d)"
| "percent_dict (After_key k) (c # cs) d =
     (if c = CHR ''s'' \<or> c = CHR ''d'' then
        (case d k of
           None \<Rightarrow> Inl (Exc [''KeyError'', ''LookupError'', ''Exception'', ''BaseException''] k)
         | Some v \<Rightarrow>
             (case convert c v of
                Inl e \<Rightarrow> Inl e
              | Inr t \<Rightarrow> prepend t (percent_dict Text cs d)))
      else Inl (ValueError ''unsupported format character''))"

definition getMessage :: "LogRecord \<Rightarrow> exc + string" where
  "getMessage record =
     (if record_args record \<noteq> []
      then percent_args False (record_msg record) (record_args record)
      else Inr (record_msg record))"

definition record_dict :: "LogRecord \<Rightarrow> string \<Rightarrow> pyval option" where
  "record_dict record =
     map_of [(''levelno'', PInt (levelno record)), (''levelname'', PStr (levelname record)),
             (''lineno'', PInt (lineno record)), (''funcName'', PStr (funcName record)),
             (''asctime'', PStr (asctime record)), (''msg'', PStr (record_msg record)),
             (''args'', PTuple (record_args record)),
             (''message'', PStr (record_message record))]"

definition logging_Formatter_format :: "string option \<Rightarrow> LogRecord \<Rightarrow> exc + string" where
  "logging_Formatter_format fmt record =
     (let template = (case fmt of None \<Rightarrow> ''%(message)s''
                      | Some f \<Rightarrow> if f = [] then ''%(message)s'' else f)
      in case getMessage record of
           Inl e \<Rightarrow> Inl e
         | Inr m \<Rightarrow> percent_dict Text template (record_dict (record\<lparr>record_message := m\<rparr>)))"

text \<open>The template check of Python before 3.8, which accepts every template.\<close>

definition accept_template :: "string \<Rightarrow> exc option" where
  "accept_template format = None"

section \<open>logger\_tools: TelegramHandler\<close>

text \<open>
  The handler talks to three things outside the library: the bot of the Telegram
  client library (\<open>send_message\<close>, \<open>send_document\<close>), the file system (the file
  it opens and writes in \<open>_send_as_document\<close>) and the standard output
  (\<open>print\<close>).  Each such call is an event; a run of the code extends a trace of
  events, oldest first.  The environment decides, from the trace so far and the
  call, whether the call raises and which exception; this covers every behaviour
  of the transport and of the file system, including one that changes from call to
  call, the print included.  It also supplies the text of the next \<open>uuid4()\<close>.
\<close>

datatype event =
    Bot_send_message int string
  | Bot_send_document int string
  | File_write string string
  | Print exc

record env =
  raises :: "event list \<Rightarrow> event \<Rightarrow> exc option"
  uuid4 :: "event list \<Rightarrow> string"

definition never_raises :: "env \<Rightarrow> bool" where
  "never_raises env = (\<forall>tr ev. raises env tr ev = None)"

definition raises_only :: "env \<Rightarrow> string \<Rightarrow> bool" where
  "raises_only env c = (\<forall>tr ev e. raises env tr ev = Some e \<longrightarrow> isinstance e c)"

definition print_succeeds :: "env \<Rightarrow> bool" where
  "print_succeeds env = (\<forall>tr e. raises env tr (Print e) = None)"

record TelegramHandler =
  th_bot :: string
  th_chat_ids :: "int list"
  th_fmt :: string
  th_MAX_LEN :: nat
  th_run_async :: bool

definition TelegramHandler_fmt :: string where
  "TelegramHandler_fmt =
     ''[%(levelname)s]'' @ [CHR 0x0A] @ ''%(lineno)d - %(funcName)s:'' @ [CHR 0x0A, CHR 0x0A]
       @ ''%(message)s''"

definition TelegramHandler_init :: "string \<Rightarrow> int list \<Rightarrow> bool \<Rightarrow> string \<Rightarrow> TelegramHandler" where
  "TelegramHandler_init bot_token chat_ids run_async fmt =
     \<lparr> th_bot = bot_token, th_chat_ids = chat_ids, th_fmt = fmt,
       th_MAX_LEN = 4096, th_run_async = run_async \<rparr>"

text \<open>
  \<open>_send_message\<close> and \<open>_send_document\<close>: one call per destination, in list
  order; an exception leaves the loop at once, with the remaining destinations
  not attempted.
\<close>

fun send_message_loop :: "env \<Rightarrow> event list \<Rightarrow> string \<Rightarrow> int list \<Rightarrow> (exc + pyval) \<times> event list" where
  "send_message_loop env tr msg [] = (Inr PNone, tr)"
| "send_message_loop env tr msg (chat_id # rest) =
     (case raises env tr (Bot_send_message chat_id msg) of
        Some e \<Rightarrow> (Inl e, tr @ [Bot_send_message chat_id msg])
      | None \<Rightarrow> send_message_loop env (tr @ [Bot_send_message chat_id msg]) msg rest)"

definition send_message :: "env \<Rightarrow> TelegramHandler \<Rightarrow> event list \<Rightarrow> string \<Rightarrow> (exc + pyval) \<times> event list" where
  "send_message env self tr msg = send_message_loop env tr msg (th_chat_ids self)"

fun send_document_loop :: "env \<Rightarrow> event list \<Rightarrow> string \<Rightarrow> int list \<Rightarrow> (exc + pyval) \<times> event list" where
  "send_document_loop env tr doc [] = (Inr PNone, tr)"
| "send_document_loop env tr doc (chat_id # rest) =
     (case raises env tr (Bot_send_document chat_id doc) of
        Some e \<Rightarrow> (Inl e, tr @ [Bot_send_document chat_id doc])
      | None \<Rightarrow> send_document_loop env (tr @ [Bot_send_document chat_id doc]) doc rest)"

definition send_document :: "env \<Rightarrow> TelegramHandler \<Rightarrow> event list \<Rightarrow> string \<Rightarrow> (exc + pyval) \<times> event list" where
  "send_document env self tr doc = send_document_loop env tr doc (th_chat_ids self)"

text \<open>
  \<open>_send_as_document\<close>: the file name is the part of \<open>str(uuid4())\<close> before its
  first hyphen, under the fixed directory \<open>logs/\<close>.  Opening and writing the file
  is one event, which may raise (the directory may be missing).
\<close>

definition document_path :: "env \<Rightarrow> event list \<Rightarrow> string" where
  "document_path env tr =
     (let rand_name = takeWhile (\<lambda>c. c \<noteq> CHR ''-'') (uuid4 env tr)
      in ''logs/'' @ rand_name @ ''-logs.txt'')"

definition send_as_document :: "env \<Rightarrow> TelegramHandler \<Rightarrow> event list \<Rightarrow> string \<Rightarrow> (exc + pyval) \<times> event list" where
  "send_as_document env self tr msg =
     (let path = document_path env tr in
      case raises env tr (File_write path msg) of
        Some e \<Rightarrow> (Inl e, tr @ [File_write path msg])
      | None \<Rightarrow> send_document env self (tr @ [File_write path msg]) path)"

text \<open>
  \<open>send\<close>: \<open>send_try\<close> is the body of its \<open>try\<close> statement.  The handler clause
  is \<open>except Exception as e\<close>, so it catches the instances of \<open>Exception\<close> and
  prints them; any other exception leaves \<open>send\<close>.  The \<open>print\<close> runs in the
  handler, outside the \<open>try\<close>: an exception it raises leaves \<open>send\<close> too.
\<close>

definition send_try :: "env \<Rightarrow> TelegramHandler \<Rightarrow> event list \<Rightarrow> string \<Rightarrow> (exc + pyval) \<times> event list" where
  "send_try env self tr msg =
     (if length msg > th_MAX_LEN self
      then send_as_document env self tr msg
      else send_message env self tr msg)"

definition send :: "env \<Rightarrow> TelegramHandler \<Rightarrow> event list \<Rightarrow> string \<Rightarrow> (exc + pyval) \<times> event list" where
  "send env self tr msg =
     (case send_try env self tr msg of
        (Inl e, tr') \<Rightarrow>
          if isinstance e ''Exception''
          then (case raises env tr' (Print e) of
                  Some e' \<Rightarrow> (Inl e', tr' @ [Print e])
                | None \<Rightarrow> (Inr PNone, tr' @ [Print e]))
          else (Inl e, tr')
      | (Inr v, tr') \<Rightarrow> (Inr PNone, tr'))"

text \<open>
  The calls a \<open>send\<close> makes when \<open>n\<close> destinations are reached: messages for a
  text of at most 4096 characters, the file and then documents for a longer one.
\<close>

definition deliveries :: "TelegramHandler \<Rightarrow> env \<Rightarrow> event list \<Rightarrow> string \<Rightarrow> nat \<Rightarrow> event list" where
  "deliveries self env tr msg n =
     (if length msg \<le> 4096
      then map (\<lambda>c. Bot_send_message c msg) (take n (th_chat_ids self))
      else File_write (document_path env tr) msg
             # map (\<lambda>c. Bot_send_document c (document_path env tr)) (take n (th_chat_ids self)))"

section \<open>logger\_tools: NiceLogger\<close>

text \<open>
  The sinks a logger owns; a rotating file handler is recorded with its base file
  name, schedule, backup count, encoding and formatter.
\<close>

datatype handler =
    StreamHandler ColoredFormatter
  | TimedRotatingFileHandler string string int string ColoredFormatter
  | Telegram_handler TelegramHandler

text \<open>The parameters of \<open>NiceLogger.__init__\<close> and their default values.\<close>

record NiceLogger_args =
  arg_name :: string
  arg_fmt :: string
  arg_enable_file :: bool
  arg_enable_telegram :: bool
  arg_telegram_token :: "string option"
  arg_telegram_chat_ids :: "int list option"
  arg_tele_run_async :: bool
  arg_colored :: bool
  arg_when :: string
  arg_backup_count :: int
  arg_encoding :: string
  arg_log_folder :: string

definition NiceLogger_defaults :: "string \<Rightarrow> NiceLogger_args" where
  "NiceLogger_defaults name =
     \<lparr> arg_name = name, arg_fmt = FORMAT, arg_enable_file = True, arg_enable_telegram = False,
       arg_telegram_token = None, arg_telegram_chat_ids = None, arg_tele_run_async = True,
       arg_colored = True, arg_when = ''midnight'', arg_backup_count = 2,
       arg_encoding = ''utf-8'', arg_log_folder = ''logs'' \<rparr>"

text \<open>
  The logger object: name, level and handler list of the base class, and the
  private attributes the constructor stores.
\<close>

record NiceLogger =
  lg_name :: string
  lg_level :: int
  lg_handlers :: "handler list"
  lg_enable_file :: bool
  lg_enable_telegram :: bool
  lg_telegram_token :: "string option"
  lg_telegram_chat_ids :: "int list option"
  lg_tele_run_async :: bool

text \<open>
  What the constructor calls outside the library, each a parameter that may raise:
  \<open>os.path.exists\<close> and \<open>os.mkdir\<close> on a file system of any type, the
  constructor of \<open>TimedRotatingFileHandler\<close> (it checks the schedule and opens
  the file at once, which fails when the directory of the file is missing), the
  template check of \<open>logging.Formatter\<close>, and the constructor of the bot (it
  checks the token).
\<close>

record 'fs lib =
  lib_exists :: "'fs \<Rightarrow> string \<Rightarrow> bool"
  lib_mkdir :: "'fs \<Rightarrow> string \<Rightarrow> exc + 'fs"
  lib_file_handler :: "'fs \<Rightarrow> string \<Rightarrow> string \<Rightarrow> int \<Rightarrow> string \<Rightarrow> exc + 'fs"
  lib_validate :: "string \<Rightarrow> exc option"
  lib_Bot :: "string \<Rightarrow> exc option"


text \<open>\<open>_make_folder\<close>.\<close>

definition make_folder :: "'fs lib \<Rightarrow> 'fs \<Rightarrow> string \<Rightarrow> exc + 'fs" where
  "make_folder lib fs folder =
     (if \<not> lib_exists lib fs folder then lib_mkdir lib fs folder else Inr fs)"

text \<open>
  \<open>__handle_telegram\<close>: it raises \<open>ValueError\<close> or updates the enable flag.  Both
  tests are \<open>is None\<close> tests; an empty list is not \<open>None\<close>.
\<close>

definition handle_telegram :: "NiceLogger \<Rightarrow> exc + NiceLogger" where
  "handle_telegram self =
     (if lg_enable_telegram self \<and> lg_telegram_token self = None
      then Inl (ValueError ''When enable_telegram is True, Telegram token is required'')
      else if lg_enable_telegram self \<and> lg_telegram_chat_ids self = None
      then Inl (ValueError ''When enable_telegram is True, Telegram chat ids are required'')
      else if lg_telegram_chat_ids self \<noteq> None \<and> lg_telegram_token self \<noteq> None
      then Inr (self\<lparr>lg_enable_telegram := True\<rparr>)
      else Inr self)"

definition addHandler :: "NiceLogger \<Rightarrow> handler \<Rightarrow> NiceLogger" where
  "addHandler self hdlr = self\<lparr>lg_handlers := lg_handlers self @ [hdlr]\<rparr>"

text \<open>
  \<open>NiceLogger.__init__\<close>, from the file system and the arguments to the
  exception raised (if any), the object as the constructor left it, and the file
  system.  Its two conditional blocks are \<open>init_file_sink\<close> (lines 170 to 181)
  and \<open>init_telegram_sink\<close> (lines 183 to 185).  The file handler's name is built
  from the literal \<open>logs/\<close>, as in the source.  With the flag set after
  validation both credentials are present; the remaining case of the pattern
  match is never taken.
\<close>

definition init_file_sink ::
  "'fs lib \<Rightarrow> 'fs \<Rightarrow> NiceLogger_args \<Rightarrow> NiceLogger \<Rightarrow> exc option \<times> NiceLogger \<times> 'fs" where
  "init_file_sink lib fs a self =
     (if lg_enable_file self then
        (case make_folder lib fs (arg_log_folder a) of
           Inl e \<Rightarrow> (Some e, self, fs)
         | Inr fs1 \<Rightarrow>
            (case lib_file_handler lib fs1 (''logs/'' @ arg_name a @ ''-logs'')
                    (arg_when a) (arg_backup_count a) (arg_encoding a) of
               Inl e \<Rightarrow> (Some e, self, fs1)
             | Inr fs2 \<Rightarrow>
                (case ColoredFormatter_init (lib_validate lib) (arg_name a) (arg_fmt a) False of
                   Inl e \<Rightarrow> (Some e, self, fs2)
                 | Inr formatter \<Rightarrow>
                     (None,
                      addHandler self
                        (TimedRotatingFileHandler (''logs/'' @ arg_name a @ ''-logs'')
                           (arg_when a) (arg_backup_count a) (arg_encoding a) formatter),
                      fs2))))
      else (None, self, fs))"

definition init_telegram_sink ::
  "'fs lib \<Rightarrow> 'fs \<Rightarrow> NiceLogger \<Rightarrow> exc option \<times> NiceLogger \<times> 'fs" where
  "init_telegram_sink lib fs self =
     (if lg_enable_telegram self then
        (case (lg_telegram_token self, lg_telegram_chat_ids self) of
           (Some token, Some chat_ids) \<Rightarrow>
             (case lib_Bot lib token of
                Some e \<Rightarrow> (Some e, self, fs)
              | None \<Rightarrow>
                  (None,
                   addHandler self
                     (Telegram_handler
                        (TelegramHandler_init token chat_ids (lg_tele_run_async self)
                           TelegramHandler_fmt)),
                   fs))
         | _ \<Rightarrow> (Some (TypeError ''Bot token and chat ids are required''), self, fs))
      else (None, self, fs))"

definition NiceLogger_init ::
  "'fs lib \<Rightarrow> 'fs \<Rightarrow> NiceLogger_args \<Rightarrow> exc option \<times> NiceLogger \<times> 'fs" where
  "NiceLogger_init lib fs a =
     (let self0 = \<lparr> lg_name = [], lg_level = 0, lg_handlers = [],
                    lg_enable_file = arg_enable_file a,
                    lg_enable_telegram = arg_enable_telegram a,
                    lg_telegram_token = arg_telegram_token a,
                    lg_telegram_chat_ids = arg_telegram_chat_ids a,
                    lg_tele_run_async = arg_tele_run_async a \<rparr>
      in case handle_telegram self0 of
           Inl e \<Rightarrow> (Some e, self0, fs)
         | Inr self1 \<Rightarrow>
            (let self2 = self1\<lparr>lg_name := arg_name a, lg_level := DEBUG\<rparr>
             in case ColoredFormatter_init (lib_validate lib) (arg_name a) (arg_fmt a)
                       (arg_colored a) of
                  Inl e \<Rightarrow> (Some e, self2, fs)
                | Inr formatter \<Rightarrow>
                   (case init_file_sink lib fs a (addHandler self2 (StreamHandler formatter)) of
                      (Some e, self4, fs4) \<Rightarrow> (Some e, self4, fs4)
                    | (None, self4, fs4) \<Rightarrow> init_telegram_sink lib fs4 self4)))"

text \<open>
  The destination lists of the notification sinks attached, and the base file
  names of the file sinks attached.
\<close>

fun telegram_destinations :: "handler list \<Rightarrow> int list list" where
  "telegram_destinations [] = []"
| "telegram_destinations (Telegram_handler t # hs) = th_chat_ids t # telegram_destinations hs"
| "telegram_destinations (h # hs) = telegram_destinations hs"

fun file_names :: "handler list \<Rightarrow> string list" where
  "file_names [] = []"
| "file_names (TimedRotatingFileHandler filename w b e f # hs) = filename # file_names hs"
| "file_names (h # hs) = file_names hs"

text \<open>
  A library for computing examples: the file system is the set of the relative
  path names that exist in the working directory; a directory is created, and a
  file opened for appending, when its parent directory exists (the working
  directory always does).  Every template, schedule and token is accepted.
\<close>

definition FileNotFoundError :: "string \<Rightarrow> exc" where
  "FileNotFoundError m = Exc [''FileNotFoundError'', ''OSError'', ''Exception'', ''BaseException''] m"

definition FileExistsError :: "string \<Rightarrow> exc" where
  "FileExistsError m = Exc [''FileExistsError'', ''OSError'', ''Exception'', ''BaseException''] m"

definition dirname :: "string \<Rightarrow> string" where
  "dirname p = rev (drop 1 (dropWhile (\<lambda>c. c \<noteq> CHR ''/'') (rev p)))"

definition parent_exists :: "string set \<Rightarrow> string \<Rightarrow> bool" where
  "parent_exists fs p = (dirname p = [] \<or> dirname p \<in> fs)"

definition dir_lib :: "string set lib" where
  "dir_lib =
     \<lparr> lib_exists = (\<lambda>fs p. p \<in> fs),
       lib_mkdir = (\<lambda>fs p. if p \<in> fs then Inl (FileExistsError p)
                            else if parent_exists fs p then Inr (insert p fs)
                            else Inl (FileNotFoundError p)),
       lib_file_handler = (\<lambda>fs filename when backupCount encoding.
                            if parent_exists fs filename then Inr (insert filename fs)
                            else Inl (FileNotFoundError filename)),
       lib_validate = accept_template,
       lib_Bot = (\<lambda>token. None) \<rparr>"


section \<open>thread\_tools\<close>

text \<open>
  A callable is modelled by what a call of it does with its positional and keyword
  arguments: it returns a value, raises, or never completes.  A function of the
  library returns \<open>Some\<close> of its result (\<open>Inl\<close> an exception that leaves it), or
  \<open>None\<close> when the call never returns, together with the units of execution it
  started: a thread with its target and arguments, or a submission to a thread pool
  with its callable and arguments.
\<close>

datatype outcome = Returns pyval | Raises exc | Diverges

type_synonym callable = "pyval list \<Rightarrow> kwargs \<Rightarrow> outcome"

datatype spawn =
    Thread_start callable "pyval list" kwargs
  | Pool_submit callable "pyval list" kwargs

type_synonym 'a result = "(exc + 'a) option"

text \<open>
  \<open>run_in_threadpool(func, return_result=False, *args, **kwargs)\<close>, with its
  parameters bound.  \<open>Future.result()\<close> waits for the callable and returns its
  value or raises its exception again; without it the function ends by falling
  off its last statement and returns \<open>None\<close>.
\<close>

definition run_in_threadpool ::
  "callable \<Rightarrow> pyval \<Rightarrow> pyval list \<Rightarrow> kwargs \<Rightarrow> pyval result \<times> spawn list" where
  "run_in_threadpool func return_result args kwargs =
     (if truthy return_result
      then ((case func args kwargs of
               Returns v \<Rightarrow> Some (Inr v)
             | Raises e \<Rightarrow> Some (Inl e)
             | Diverges \<Rightarrow> None),
            [Pool_submit func args kwargs])
      else (Some (Inr PNone), [Pool_submit func args kwargs]))"

definition run_in_thread :: "callable \<Rightarrow> pyval list \<Rightarrow> kwargs \<Rightarrow> pyval result \<times> spawn list" where
  "run_in_thread func args kwargs = (Some (Inr PNone), [Thread_start func args kwargs])"

text \<open>
  The calls \<open>run_in_threadpool(func, *args, **kwargs)\<close> and
  \<open>run_in_thread(func, *args, **kwargs)\<close> that the wrappers make, with Python's
  binding of arguments to parameters: positional arguments fill the named
  parameters from the left before \<open>*args\<close> takes the rest, so the first positional
  argument after \<open>func\<close> becomes \<open>return_result\<close>; a keyword with the name of a
  parameter binds that parameter, and is a \<open>TypeError\<close> when the parameter is
  already bound.
\<close>

definition multiple_values :: "string \<Rightarrow> string \<Rightarrow> exc" where
  "multiple_values f p = TypeError (f @ ''() got multiple values for argument '' @ repr_str p)"

definition call_run_in_threadpool ::
  "callable \<Rightarrow> pyval list \<Rightarrow> kwargs \<Rightarrow> pyval result \<times> spawn list" where
  "call_run_in_threadpool func pos kw =
     (if ''func'' \<in> set (map fst kw)
      then (Some (Inl (multiple_values ''run_in_threadpool'' ''func'')), [])
      else case pos of
             [] \<Rightarrow>
               (case map_of kw ''return_result'' of
                  None \<Rightarrow> run_in_threadpool func (PBool False) [] kw
                | Some r \<Rightarrow>
                    run_in_threadpool func r [] (filter (\<lambda>(k, v). k \<noteq> ''return_result'') kw))
           | r # rest \<Rightarrow>
               if ''return_result'' \<in> set (map fst kw)
               then (Some (Inl (multiple_values ''run_in_threadpool'' ''return_result'')), [])
               else run_in_threadpool func r rest kw)"

definition call_run_in_thread ::
  "callable \<Rightarrow> pyval list \<Rightarrow> kwargs \<Rightarrow> pyval result \<times> spawn list" where
  "call_run_in_thread func pos kw =
     (if ''func'' \<in> set (map fst kw)
      then (Some (Inl (multiple_values ''run_in_thread'' ''func'')), [])
      else run_in_thread func pos kw)"

text \<open>
  The two decorators.  Each wrapper consists of one call whose value it does not
  return, so the wrapper returns \<open>None\<close> when that call returns.
\<close>

definition returns_None :: "pyval result \<times> spawn list \<Rightarrow> pyval result \<times> spawn list" where
  "returns_None r = (case fst r of Some (Inr v) \<Rightarrow> (Some (Inr PNone), snd r) | _ \<Rightarrow> r)"

definition run_in_thread_decorator ::
  "callable \<Rightarrow> pyval list \<Rightarrow> kwargs \<Rightarrow> pyval result \<times> spawn list" where
  "run_in_thread_decorator func =
     (\<lambda>args kwargs. returns_None (call_run_in_thread func args kwargs))"

definition run_in_threadpool_decorator ::
  "callable \<Rightarrow> pyval list \<Rightarrow> kwargs \<Rightarrow> pyval result \<times> spawn list" where
  "run_in_threadpool_decorator func =
     (\<lambda>args kwargs. returns_None (call_run_in_threadpool func args kwargs))"

section \<open>func\_tools\<close>

text \<open>
  The object an \<open>except\<close> clause names: a class, a tuple of classes or, as the
  annotation and the default of \<open>catch_exception_decorator\<close> have it, a list of
  classes.  Python evaluates the clause when an exception reaches it: a class or
  a tuple of classes is matched with \<open>isinstance\<close>; anything else, a list
  included, raises \<open>TypeError\<close> in place of the match.
\<close>

datatype exc_classes = Class string | ClassTuple "string list" | ClassList "string list"

definition except_matches :: "exc_classes \<Rightarrow> exc \<Rightarrow> exc + bool" where
  "except_matches clause e =
     (case clause of
        Class c \<Rightarrow> Inr (isinstance e c)
      | ClassTuple cs \<Rightarrow> Inr (list_ex (isinstance e) cs)
      | ClassList cs \<Rightarrow>
          Inl (TypeError ''catching classes that do not inherit from BaseException is not allowed''))"

text \<open>
  \<open>catch_exception_decorator(func, callback, exceptions=None, default=None)\<close>
  and its wrapper.  The second component of the result lists the exceptions the
  callback was called with.
\<close>

definition catch_exception_decorator ::
  "callable \<Rightarrow> (exc \<Rightarrow> outcome) \<Rightarrow> exc_classes option \<Rightarrow> pyval
     \<Rightarrow> pyval list \<Rightarrow> kwargs \<Rightarrow> pyval result \<times> exc list" where
  "catch_exception_decorator func callback exceptions default' =
     (let exceptions = (case exceptions of None \<Rightarrow> ClassList [''Exception''] | Some x \<Rightarrow> x)
      in (\<lambda>args kwargs.
            case func args kwargs of
              Returns v \<Rightarrow> (Some (Inr v), [])
            | Diverges \<Rightarrow> (None, [])
            | Raises e \<Rightarrow>
                (case except_matches exceptions e of
                   Inl t \<Rightarrow> (Some (Inl t), [])
                 | Inr False \<Rightarrow> (Some (Inl e), [])
                 | Inr True \<Rightarrow>
                     (case callback e of
                        Returns u \<Rightarrow> (Some (Inr default'), [e])
                      | Raises e' \<Rightarrow> (Some (Inl e'), [e])
                      | Diverges \<Rightarrow> (None, [e])))))"

section \<open>Concrete environments and callables\<close>

text \<open>
  An error of the transport library, and four environments: one where no call
  raises, one where the message to destination 8 times out, one where the user
  interrupts the process during a delivery, and one where every delivery times out
  and the standard output is closed.
\<close>

definition NetworkError :: "string \<Rightarrow> exc" where
  "NetworkError m = Exc [''NetworkError'', ''TelegramError'', ''Exception'', ''BaseException''] m"

definition env_ok :: env where
  "env_ok = \<lparr> raises = (\<lambda>tr ev. None),
              uuid4 = (\<lambda>tr. ''1b4e28ba-2fa1-11d2-883f-0016d3cca427'') \<rparr>"

definition env_second_fails :: env where
  "env_second_fails =
     \<lparr> raises = (\<lambda>tr ev. if ev = Bot_send_message 8 ''hi''
                          then Some (NetworkError ''timed out'') else None),
       uuid4 = (\<lambda>tr. ''1b4e28ba-2fa1-11d2-883f-0016d3cca427'') \<rparr>"

definition env_interrupted :: env where
  "env_interrupted =
     \<lparr> raises = (\<lambda>tr ev. Some KeyboardInterrupt),
       uuid4 = (\<lambda>tr. ''1b4e28ba-2fa1-11d2-883f-0016d3cca427'') \<rparr>"

definition env_stdout_closed :: env where
  "env_stdout_closed =
     \<lparr> raises = (\<lambda>tr ev. case ev of
                           Print e \<Rightarrow> Some (ValueError ''I/O operation on closed file'')
                         | _ \<Rightarrow> Some (NetworkError ''timed out'')),
       uuid4 = (\<lambda>tr. ''1b4e28ba-2fa1-11d2-883f-0016d3cca427'') \<rparr>"

text \<open>
  Two records of level 25, which is none of the five levels: the call
  \<open>log(25, 'hi')\<close>, and the call \<open>log(25, '%d items', 'x')\<close>, whose message
  cannot be built from its argument.
\<close>

definition record_hi :: LogRecord where
  "record_hi = \<lparr> levelno = 25, levelname = ''Level 25'', lineno = 1, funcName = ''f'',
                 asctime = [], record_msg = ''hi'', record_args = [], record_message = [] \<rparr>"

definition record_items :: LogRecord where
  "record_items = \<lparr> levelno = 25, levelname = ''Level 25'', lineno = 1, funcName = ''f'',
                    asctime = [], record_msg = ''%d items'', record_args = [PStr ''x''],
                    record_message = [] \<rparr>"

text \<open>
  Three callables: \<open>def add_two(x, y): return x + y\<close> on integers, one that never
  completes, and \<open>lambda: 1 / 0\<close>.
\<close>

definition add_two :: callable where
  "add_two args kwargs =
     (case args of [PInt x, PInt y] \<Rightarrow> Returns (PInt (x + y))
      | _ \<Rightarrow> Raises (TypeError ''add_two() missing 1 required positional argument''))"

definition forever :: callable where
  "forever args kwargs = Diverges"

definition div_zero :: callable where
  "div_zero args kwargs = Raises (ZeroDivisionError ''division by zero'')"

section \<open>Properties of message delivery\<close>

lemma send_message_loop_shape:
  "\<exists>n. n \<le> length ids \<and>
     snd (send_message_loop env tr msg ids) = tr @ map (\<lambda>c. Bot_send_message c msg) (take n ids)"
proof (induction ids arbitrary: tr)
  case Nil
  then show ?case by simp
next
  case (Cons c rest)
  show ?case
  proof (cases "raises env tr (Bot_send_message c msg)")
    case (Some e)
    then have "snd (send_message_loop env tr msg (c # rest))
                 = tr @ map (\<lambda>c. Bot_send_message c msg) (take 1 (c # rest))"
      by simp
    then show ?thesis by (intro exI [of _ 1]) simp
  next
    case None
    obtain n where n: "n \<le> length rest"
      and s: "snd (send_message_loop env (tr @ [Bot_send_message c msg]) msg rest)
                = (tr @ [Bot_send_message c msg]) @ map (\<lambda>c. Bot_send_message c msg) (take n rest)"
      using Cons.IH by blast
    show ?thesis using None n s by (intro exI [of _ "Suc n"]) simp
  qed
qed

lemma send_message_loop_ok:
  "never_raises env \<Longrightarrow>
     send_message_loop env tr msg ids = (Inr PNone, tr @ map (\<lambda>c. Bot_send_message c msg) ids)"
  by (induction ids arbitrary: tr) (simp_all add: never_raises_def)

lemma send_document_loop_shape:
  "\<exists>n. n \<le> length ids \<and>
     snd (send_document_loop env tr doc ids) = tr @ map (\<lambda>c. Bot_send_document c doc) (take n ids)"
proof (induction ids arbitrary: tr)
  case Nil
  then show ?case by simp
next
  case (Cons c rest)
  show ?case
  proof (cases "raises env tr (Bot_send_document c doc)")
    case (Some e)
    then have "snd (send_document_loop env tr doc (c # rest))
                 = tr @ map (\<lambda>c. Bot_send_document c doc) (take 1 (c # rest))"
      by simp
    then show ?thesis by (intro exI [of _ 1]) simp
  next
    case None
    obtain n where n: "n \<le> length rest"
      and s: "snd (send_document_loop env (tr @ [Bot_send_document c doc]) doc rest)
                = (tr @ [Bot_send_document c doc]) @ map (\<lambda>c. Bot_send_document c doc) (take n rest)"
      using Cons.IH by blast
    show ?thesis using None n s by (intro exI [of _ "Suc n"]) simp
  qed
qed

lemma send_document_loop_ok:
  "never_raises env \<Longrightarrow>
     send_document_loop env tr doc ids = (Inr PNone, tr @ map (\<lambda>c. Bot_send_document c doc) ids)"
  by (induction ids arbitrary: tr) (simp_all add: never_raises_def)

lemma send_try_shape:
  assumes "th_MAX_LEN self = 4096"
  shows "\<exists>n. n \<le> length (th_chat_ids self) \<and>
           snd (send_try env self tr msg) = tr @ deliveries self env tr msg n"
proof (cases "length msg \<le> 4096")
  case True
  then show ?thesis
    using send_message_loop_shape [of "th_chat_ids self" env tr msg] assms
    by (simp add: send_try_def send_message_def deliveries_def)
next
  case False
  let ?p = "document_path env tr"
  show ?thesis
  proof (cases "raises env tr (File_write ?p msg)")
    case (Some e)
    then have "snd (send_try env self tr msg) = tr @ deliveries self env tr msg 0"
      using False assms by (simp add: send_try_def send_as_document_def deliveries_def Let_def)
    then show ?thesis by (intro exI [of _ 0]) simp
  next
    case None
    obtain n where n: "n \<le> length (th_chat_ids self)"
      and s: "snd (send_document_loop env (tr @ [File_write ?p msg]) ?p (th_chat_ids self))
                = (tr @ [File_write ?p msg]) @ map (\<lambda>c. Bot_send_document c ?p) (take n (th_chat_ids self))"
      using send_document_loop_shape by blast
    have "snd (send_try env self tr msg) = tr @ deliveries self env tr msg n"
      using False assms None s
      by (simp add: send_try_def send_as_document_def send_document_def deliveries_def Let_def)
    with n show ?thesis by blast
  qed
qed

lemma send_try_ok:
  assumes "th_MAX_LEN self = 4096" and "never_raises env"
  shows "send_try env self tr msg
           = (Inr PNone, tr @ deliveries self env tr msg (length (th_chat_ids self)))"
proof -
  have w: "raises env tr (File_write (document_path env tr) msg) = None"
    using assms(2) by (simp add: never_raises_def)
  show ?thesis
    using assms(1) w send_message_loop_ok [OF assms(2)] send_document_loop_ok [OF assms(2)]
    by (simp add: send_try_def send_as_document_def send_document_def send_message_def
        deliveries_def Let_def)
qed

lemma send_message_loop_raised:
  "fst (send_message_loop env tr msg ids) = Inl e \<Longrightarrow> \<exists>tr' ev. raises env tr' ev = Some e"
  by (induction ids arbitrary: tr) (auto split: option.splits)

lemma send_document_loop_raised:
  "fst (send_document_loop env tr doc ids) = Inl e \<Longrightarrow> \<exists>tr' ev. raises env tr' ev = Some e"
  by (induction ids arbitrary: tr) (auto split: option.splits)

lemma send_try_raised:
  assumes "fst (send_try env self tr msg) = Inl e"
  shows "\<exists>tr' ev. raises env tr' ev = Some e"
proof (cases "length msg > th_MAX_LEN self")
  case False
  then show ?thesis
    using assms send_message_loop_raised by (simp add: send_try_def send_message_def)
next
  case True
  show ?thesis
  proof (cases "raises env tr (File_write (document_path env tr) msg)")
    case (Some e')
    then have "e' = e"
      using assms True by (simp add: send_try_def send_as_document_def Let_def)
    with Some show ?thesis by blast
  next
    case None
    then show ?thesis
      using assms True send_document_loop_raised
      by (simp add: send_try_def send_as_document_def send_document_def Let_def)
  qed
qed

text \<open>
  C1.  For every text, every destination list and every environment, \<open>send\<close> of a
  handler built by the constructor makes these calls and no others, apart from at
  most one closing diagnostic print: for a text of at most 4096 characters, a
  \<open>send_message\<close> with the text to the first \<open>n\<close> destinations, in list order; for
  a longer text, the write of the text to the file under \<open>logs/\<close> and then a
  \<open>send_document\<close> with that file to the first \<open>n\<close> destinations.  When no call
  raises, \<open>n\<close> is the whole list and nothing is printed.  So the mode depends on
  the length alone, the empty text is sent as a message, and 4096 is the last
  length sent as a message.
\<close>

theorem send_chooses_by_length:
  "\<exists>n p. n \<le> length ids \<and> (p = [] \<or> (\<exists>e. p = [Print e]))
     \<and> (never_raises env \<longrightarrow> n = length ids \<and> p = [])
     \<and> snd (send env (TelegramHandler_init bot_token ids run_async fmt) tr msg) =
         tr @ (if length msg \<le> 4096
               then map (\<lambda>c. Bot_send_message c msg) (take n ids)
               else File_write (document_path env tr) msg
                      # map (\<lambda>c. Bot_send_document c (document_path env tr)) (take n ids)) @ p"
proof -
  let ?h = "TelegramHandler_init bot_token ids run_async fmt"
  have m: "th_MAX_LEN ?h = 4096" and c: "th_chat_ids ?h = ids"
    by (simp_all add: TelegramHandler_init_def)
  show ?thesis
  proof (cases "never_raises env")
    case True
    have "snd (send env ?h tr msg) = tr @ deliveries ?h env tr msg (length ids) @ []"
      using send_try_ok [OF m True, of tr msg] c by (simp add: send_def)
    then show ?thesis
      using True c by (intro exI [of _ "length ids"] exI [of _ "[]"]) (simp add: deliveries_def)
  next
    case False
    obtain n where n: "n \<le> length ids"
      and s: "snd (send_try env ?h tr msg) = tr @ deliveries ?h env tr msg n"
      using send_try_shape [OF m, of env tr msg] c by auto
    obtain r tr' where r: "send_try env ?h tr msg = (r, tr')"
      by (cases "send_try env ?h tr msg")
    have tr': "tr' = tr @ deliveries ?h env tr msg n"
      using s r by simp
    have "\<exists>p. (p = [] \<or> (\<exists>e. p = [Print e])) \<and> snd (send env ?h tr msg) = tr' @ p"
      using r by (cases r) (auto simp: send_def split: option.splits)
    then obtain p where p: "p = [] \<or> (\<exists>e. p = [Print e])"
      and sp: "snd (send env ?h tr msg) = tr' @ p"
      by blast
    show ?thesis
      using False n p sp tr' c
      by (intro exI [of _ n] exI [of _ p]) (simp add: deliveries_def)
  qed
qed

theorem send_chooses_by_length_witness:
  "snd (send env_ok (TelegramHandler_init ''t'' [7, 8] False TelegramHandler_fmt) [] [])
     = [Bot_send_message 7 [], Bot_send_message 8 []]
   \<and> snd (send env_ok (TelegramHandler_init ''t'' [7, 8] False TelegramHandler_fmt) []
            (replicate 4096 CHR ''a''))
     = [Bot_send_message 7 (replicate 4096 CHR ''a''), Bot_send_message 8 (replicate 4096 CHR ''a'')]
   \<and> snd (send env_ok (TelegramHandler_init ''t'' [7, 8] False TelegramHandler_fmt) []
            (replicate 4097 CHR ''a''))
     = [File_write ''logs/1b4e28ba-logs.txt'' (replicate 4097 CHR ''a''),
        Bot_send_document 7 ''logs/1b4e28ba-logs.txt'',
        Bot_send_document 8 ''logs/1b4e28ba-logs.txt'']"
proof -
  have ok: "never_raises env_ok"
    by (simp add: never_raises_def env_ok_def)
  have path: "document_path env_ok [] = ''logs/1b4e28ba-logs.txt''"
    by (simp add: document_path_def env_ok_def)
  have a: "snd (send env_ok (TelegramHandler_init ''t'' [7, 8] False TelegramHandler_fmt) [] [])
     = [Bot_send_message 7 [], Bot_send_message 8 []]"
    using send_chooses_by_length [of "[7, 8]" env_ok "''t''" False TelegramHandler_fmt "[]" "[]"] ok
    by auto
  have b: "snd (send env_ok (TelegramHandler_init ''t'' [7, 8] False TelegramHandler_fmt) []
            (replicate 4096 CHR ''a''))
     = [Bot_send_message 7 (replicate 4096 CHR ''a''), Bot_send_message 8 (replicate 4096 CHR ''a'')]"
    using send_chooses_by_length [of "[7, 8]" env_ok "''t''" False TelegramHandler_fmt "[]"
        "replicate 4096 CHR ''a''"] ok
    by auto
  have c: "snd (send env_ok (TelegramHandler_init ''t'' [7, 8] False TelegramHandler_fmt) []
            (replicate 4097 CHR ''a''))
     = [File_write ''logs/1b4e28ba-logs.txt'' (replicate 4097 CHR ''a''),
        Bot_send_document 7 ''logs/1b4e28ba-logs.txt'',
        Bot_send_document 8 ''logs/1b4e28ba-logs.txt'']"
    using send_chooses_by_length [of "[7, 8]" env_ok "''t''" False TelegramHandler_fmt "[]"
        "replicate 4097 CHR ''a''"] ok path
    by auto
  show ?thesis using a b c by blast
qed

text \<open>
  C2, as stated, fails: an exception that is not an instance of \<open>Exception\<close>
  passes the handler clause.  Here the user interrupts a synchronous delivery and
  \<open>KeyboardInterrupt\<close> leaves \<open>send\<close>, with nothing printed.
\<close>

theorem send_propagates_KeyboardInterrupt:
  "send env_interrupted (TelegramHandler_init ''t'' [7] False TelegramHandler_fmt) [] ''hi''
     = (Inl KeyboardInterrupt, [Bot_send_message 7 ''hi''])"
  by (simp add: send_def send_try_def send_message_def TelegramHandler_init_def
      env_interrupted_def KeyboardInterrupt_def isinstance_def)

text \<open>
  C2, amended.  For every text and every environment: when message or document
  delivery raises an instance of \<open>Exception\<close>, \<open>send\<close> catches it and prints
  it, and returns normally if the print does not raise; an exception raised by the
  print leaves \<open>send\<close>.  When delivery raises an exception that is not an
  instance of \<open>Exception\<close>, that exception leaves \<open>send\<close>, with nothing printed.
  When delivery raises nothing, \<open>send\<close> returns normally.  So in an environment
  where every exception is an instance of \<open>Exception\<close> (as every error of the
  transport library is) and the print does not raise, \<open>send\<close> never raises.
\<close>

theorem send_swallows_Exception:
  "(send_try env self tr msg = (Inl e, tr') \<and> isinstance e ''Exception''
      \<longrightarrow> send env self tr msg =
            ((case raises env tr' (Print e) of None \<Rightarrow> Inr PNone | Some e' \<Rightarrow> Inl e'),
             tr' @ [Print e]))
   \<and> (send_try env self tr msg = (Inl e, tr') \<and> \<not> isinstance e ''Exception''
      \<longrightarrow> send env self tr msg = (Inl e, tr'))
   \<and> (send_try env self tr msg = (Inr v, tr') \<longrightarrow> send env self tr msg = (Inr PNone, tr'))
   \<and> (raises_only env ''Exception'' \<and> print_succeeds env
      \<longrightarrow> fst (send env self tr msg) = Inr PNone)"
proof -
  have caught: "isinstance x ''Exception''"
    if "raises_only env ''Exception''" and "fst (send_try env self tr msg) = Inl x" for x
    using send_try_raised [OF that(2)] that(1) by (auto simp: raises_only_def)
  have ok: "fst (send env self tr msg) = Inr PNone"
    if ro: "raises_only env ''Exception''" and ps: "print_succeeds env"
  proof -
    obtain r t where r: "send_try env self tr msg = (r, t)"
      by (cases "send_try env self tr msg")
    show ?thesis
    proof (cases r)
      case (Inl x)
      then have "isinstance x ''Exception''"
        using caught [OF ro] r by simp
      moreover have "raises env t (Print x) = None"
        using ps by (simp add: print_succeeds_def)
      ultimately show ?thesis
        using r Inl by (simp add: send_def)
    next
      case (Inr y)
      then show ?thesis using r by (simp add: send_def)
    qed
  qed
  show ?thesis
    using ok by (auto simp: send_def split: option.splits)
qed

theorem send_swallows_Exception_witness:
  "send env_second_fails (TelegramHandler_init ''t'' [7, 8, 9] False TelegramHandler_fmt) [] ''hi''
     = (Inr PNone, [Bot_send_message 7 ''hi'', Bot_send_message 8 ''hi'',
                    Print (NetworkError ''timed out'')])
   \<and> send env_stdout_closed (TelegramHandler_init ''t'' [7, 8, 9] False TelegramHandler_fmt) [] ''hi''
     = (Inl (ValueError ''I/O operation on closed file''),
        [Bot_send_message 7 ''hi'', Print (NetworkError ''timed out'')])
   \<and> send env_interrupted (TelegramHandler_init ''t'' [7, 8, 9] False TelegramHandler_fmt) [] ''hi''
     = (Inl KeyboardInterrupt, [Bot_send_message 7 ''hi''])
   \<and> send env_ok (TelegramHandler_init ''t'' [7, 8, 9] False TelegramHandler_fmt) [] ''hi''
     = (Inr PNone, [Bot_send_message 7 ''hi'', Bot_send_message 8 ''hi'', Bot_send_message 9 ''hi''])
   \<and> fst (send env_second_fails (TelegramHandler_init ''t'' [7, 8, 9] False TelegramHandler_fmt)
            [] (replicate 5000 CHR ''a'')) = Inr PNone"
proof -
  let ?h = "TelegramHandler_init ''t'' [7, 8, 9] False TelegramHandler_fmt"
  have ro: "raises_only env_second_fails ''Exception''"
    by (simp add: raises_only_def env_second_fails_def NetworkError_def isinstance_def)
  have ps: "print_succeeds env_second_fails"
    by (simp add: print_succeeds_def env_second_fails_def)
  have n: "isinstance (NetworkError ''timed out'') ''Exception''"
    by (simp add: NetworkError_def isinstance_def)
  have k: "\<not> isinstance KeyboardInterrupt ''Exception''"
    by (simp add: KeyboardInterrupt_def isinstance_def)
  have t1: "send_try env_second_fails ?h [] ''hi''
             = (Inl (NetworkError ''timed out''), [Bot_send_message 7 ''hi'', Bot_send_message 8 ''hi''])"
    by (simp add: send_try_def send_message_def TelegramHandler_init_def env_second_fails_def)
  have t2: "send_try env_stdout_closed ?h [] ''hi''
             = (Inl (NetworkError ''timed out''), [Bot_send_message 7 ''hi''])"
    by (simp add: send_try_def send_message_def TelegramHandler_init_def env_stdout_closed_def)
  have t3: "send_try env_interrupted ?h [] ''hi'' = (Inl KeyboardInterrupt, [Bot_send_message 7 ''hi''])"
    by (simp add: send_try_def send_message_def TelegramHandler_init_def env_interrupted_def)
  have t4: "send_try env_ok ?h [] ''hi''
             = (Inr PNone, [Bot_send_message 7 ''hi'', Bot_send_message 8 ''hi'', Bot_send_message 9 ''hi''])"
    by (simp add: send_try_def send_message_def TelegramHandler_init_def env_ok_def)
  have p1: "raises env_second_fails [Bot_send_message 7 ''hi'', Bot_send_message 8 ''hi'']
              (Print (NetworkError ''timed out'')) = None"
    by (simp add: env_second_fails_def)
  have p2: "raises env_stdout_closed [Bot_send_message 7 ''hi''] (Print (NetworkError ''timed out''))
              = Some (ValueError ''I/O operation on closed file'')"
    by (simp add: env_stdout_closed_def)
  have a: "send env_second_fails ?h [] ''hi''
     = (Inr PNone, [Bot_send_message 7 ''hi'', Bot_send_message 8 ''hi'',
                    Print (NetworkError ''timed out'')])"
    using send_swallows_Exception [of env_second_fails ?h "[]" "''hi''" "NetworkError ''timed out''"
        "[Bot_send_message 7 ''hi'', Bot_send_message 8 ''hi'']"] t1 n p1
    by simp
  have b: "send env_stdout_closed ?h [] ''hi''
     = (Inl (ValueError ''I/O operation on closed file''),
        [Bot_send_message 7 ''hi'', Print (NetworkError ''timed out'')])"
    using send_swallows_Exception [of env_stdout_closed ?h "[]" "''hi''" "NetworkError ''timed out''"
        "[Bot_send_message 7 ''hi'']"] t2 n p2
    by simp
  have c: "send env_interrupted ?h [] ''hi'' = (Inl KeyboardInterrupt, [Bot_send_message 7 ''hi''])"
    using send_swallows_Exception [of env_interrupted ?h "[]" "''hi''" KeyboardInterrupt
        "[Bot_send_message 7 ''hi'']"] t3 k
    by simp
  have d: "send env_ok ?h [] ''hi''
     = (Inr PNone, [Bot_send_message 7 ''hi'', Bot_send_message 8 ''hi'', Bot_send_message 9 ''hi''])"
    using send_swallows_Exception [of env_ok ?h "[]" "''hi''" _
        "[Bot_send_message 7 ''hi'', Bot_send_message 8 ''hi'', Bot_send_message 9 ''hi'']" PNone] t4
    by simp
  have e: "fst (send env_second_fails ?h [] (replicate 5000 CHR ''a'')) = Inr PNone"
    using send_swallows_Exception [of env_second_fails ?h "[]" "replicate 5000 CHR ''a''"] ro ps
    by simp
  show ?thesis using a b c d e by blast
qed

section \<open>Properties of logger construction\<close>

lemma telegram_destinations_append [simp]:
  "telegram_destinations (hs @ hs') = telegram_destinations hs @ telegram_destinations hs'"
  by (induction hs rule: telegram_destinations.induct) simp_all

lemma file_names_append [simp]:
  "file_names (hs @ hs') = file_names hs @ file_names hs'"
  by (induction hs rule: file_names.induct) simp_all










section \<open>Properties of message composition\<close>

text \<open>
  C4.  For every message string and tag string, \<open>_make_message\<close> returns exactly
  \<open>[tag] - msg\<close> when neither positional nor keyword context is given; positional
  context appends \<open> | \<close> and the rendering of the argument tuple, keyword context
  appends \<open> | \<close> and the rendering of the keyword dictionary, the tuple before the
  dictionary when both are given.  The two examples of the specification are
  computed: arguments 1, 2 give \<open>[t] - x | (1, 2)\<close> and the keyword k=1 gives
  \<open>[t] - x | {'k': 1}\<close>.
\<close>

theorem make_message_layout:
  "make_message msg (Some tag) [] [] = ''['' @ tag @ ''] - '' @ msg
   \<and> make_message msg (Some tag) (a # as) [] =
       ''['' @ tag @ ''] - '' @ msg @ '' | '' @ repr (PTuple (a # as))
   \<and> make_message msg (Some tag) [] (kv # kvs) =
       ''['' @ tag @ ''] - '' @ msg @ '' | '' @ repr (kwargs_dict (kv # kvs))
   \<and> make_message msg (Some tag) (a # as) (kv # kvs) =
       ''['' @ tag @ ''] - '' @ msg @ '' | '' @ repr (PTuple (a # as))
         @ '' | '' @ repr (kwargs_dict (kv # kvs))
   \<and> make_message ''x'' (Some ''t'') [PInt 1, PInt 2] [] = ''[t] - x | (1, 2)''
   \<and> make_message ''x'' (Some ''t'') [] [(''k'', PInt 1)] = ''[t] - x | {'k': 1}''"
proof -
  have one: "str_int 1 = ''1''" and two: "str_int 2 = ''2''"
    by (simp_all add: str_int_def str_nat.simps)
  have k: "repr_str ''k'' = [CHR 0x27, CHR ''k'', CHR 0x27]"
    by (simp add: repr_str_def repr_char_def Let_def)
  show ?thesis
    by (simp add: make_message_def kwargs_dict_def one two k del: repr.simps(5,7))
       (simp add: one two k)
qed

section \<open>The file sink\<close>

text \<open>
  C5.  The code at the input \<open>name = 'app'\<close>, \<open>log_folder = 'out'\<close>.  In a
  working directory that holds \<open>logs\<close>, construction succeeds and creates the
  directory \<open>out\<close>, but the rotating file handler it attaches has the base file
  name \<open>logs/app-logs\<close>, and that is the file opened, not \<open>out/app-logs\<close>.  In an
  empty working directory construction creates \<open>out\<close> and then raises
  \<open>FileNotFoundError\<close> for \<open>logs/app-logs\<close>, with the console sink alone
  attached.
\<close>

theorem NiceLogger_init_file_name_ignores_log_folder:
  "fst (NiceLogger_init dir_lib {''logs''}
          ((NiceLogger_defaults ''app'')\<lparr>arg_log_folder := ''out''\<rparr>)) = None
   \<and> snd (snd (NiceLogger_init dir_lib {''logs''}
          ((NiceLogger_defaults ''app'')\<lparr>arg_log_folder := ''out''\<rparr>)))
       = {''logs'', ''out'', ''logs/app-logs''}
   \<and> file_names (lg_handlers (fst (snd (NiceLogger_init dir_lib {''logs''}
        ((NiceLogger_defaults ''app'')\<lparr>arg_log_folder := ''out''\<rparr>))))) = [''logs/app-logs'']
   \<and> ''logs/app-logs'' \<noteq> ''out/app-logs''
   \<and> fst (NiceLogger_init dir_lib {}
          ((NiceLogger_defaults ''app'')\<lparr>arg_log_folder := ''out''\<rparr>))
       = Some (FileNotFoundError ''logs/app-logs'')
   \<and> snd (snd (NiceLogger_init dir_lib {}
          ((NiceLogger_defaults ''app'')\<lparr>arg_log_folder := ''out''\<rparr>))) = {''out''}
   \<and> file_names (lg_handlers (fst (snd (NiceLogger_init dir_lib {}
        ((NiceLogger_defaults ''app'')\<lparr>arg_log_folder := ''out''\<rparr>))))) = []
   \<and> length (lg_handlers (fst (snd (NiceLogger_init dir_lib {}
        ((NiceLogger_defaults ''app'')\<lparr>arg_log_folder := ''out''\<rparr>))))) = 1"
proof -
  have d1: "dirname ''out'' = []" and d2: "dirname ''logs/app-logs'' = ''logs''"
    by (simp_all add: dirname_def)
  have c1: "fst (NiceLogger_init dir_lib {''logs''} ((NiceLogger_defaults ''app'')\<lparr>arg_log_folder := ''out''\<rparr>)) = None"
    by (simp add: NiceLogger_init_def init_file_sink_def init_telegram_sink_def make_folder_def
        NiceLogger_defaults_def handle_telegram_def addHandler_def ColoredFormatter_init_def
        accept_template_def dir_lib_def parent_exists_def d1 d2 Let_def)
  have c2: "snd (snd (NiceLogger_init dir_lib {''logs''} ((NiceLogger_defaults ''app'')\<lparr>arg_log_folder := ''out''\<rparr>))) = {''logs'', ''out'', ''logs/app-logs''}"
    by (auto simp: NiceLogger_init_def init_file_sink_def init_telegram_sink_def make_folder_def
        NiceLogger_defaults_def handle_telegram_def addHandler_def ColoredFormatter_init_def
        accept_template_def dir_lib_def parent_exists_def d1 d2 Let_def)
  have c3: "file_names (lg_handlers (fst (snd (NiceLogger_init dir_lib {''logs''} ((NiceLogger_defaults ''app'')\<lparr>arg_log_folder := ''out''\<rparr>))))) = [''logs/app-logs'']"
    by (simp add: NiceLogger_init_def init_file_sink_def init_telegram_sink_def make_folder_def
        NiceLogger_defaults_def handle_telegram_def addHandler_def ColoredFormatter_init_def
        accept_template_def dir_lib_def parent_exists_def d1 d2 Let_def)
  have c4: "''logs/app-logs'' \<noteq> ''out/app-logs''"
    by simp
  have c5: "fst (NiceLogger_init dir_lib {} ((NiceLogger_defaults ''app'')\<lparr>arg_log_folder := ''out''\<rparr>)) = Some (FileNotFoundError ''logs/app-logs'')"
    by (simp add: NiceLogger_init_def init_file_sink_def init_telegram_sink_def make_folder_def
        NiceLogger_defaults_def handle_telegram_def addHandler_def ColoredFormatter_init_def
        accept_template_def dir_lib_def parent_exists_def d1 d2 Let_def)
  have c6: "snd (snd (NiceLogger_init dir_lib {} ((NiceLogger_defaults ''app'')\<lparr>arg_log_folder := ''out''\<rparr>))) = {''out''}"
    by (simp add: NiceLogger_init_def init_file_sink_def init_telegram_sink_def make_folder_def
        NiceLogger_defaults_def handle_telegram_def addHandler_def ColoredFormatter_init_def
        accept_template_def dir_lib_def parent_exists_def d1 d2 Let_def)
  have c7: "file_names (lg_handlers (fst (snd (NiceLogger_init dir_lib {} ((NiceLogger_defaults ''app'')\<lparr>arg_log_folder := ''out''\<rparr>))))) = []"
    by (simp add: NiceLogger_init_def init_file_sink_def init_telegram_sink_def make_folder_def
        NiceLogger_defaults_def handle_telegram_def addHandler_def ColoredFormatter_init_def
        accept_template_def dir_lib_def parent_exists_def d1 d2 Let_def)
  have c8: "length (lg_handlers (fst (snd (NiceLogger_init dir_lib {} ((NiceLogger_defaults ''app'')\<lparr>arg_log_folder := ''out''\<rparr>))))) = 1"
    by (simp add: NiceLogger_init_def init_file_sink_def init_telegram_sink_def make_folder_def
        NiceLogger_defaults_def handle_telegram_def addHandler_def ColoredFormatter_init_def
        accept_template_def dir_lib_def parent_exists_def d1 d2 Let_def)
  show ?thesis
    by (intro conjI) (rule c1, rule c2, rule c3, rule c4, rule c5, rule c6, rule c7, rule c8)
qed

section \<open>Properties of the thread helpers\<close>

lemma snd_returns_None: "snd (returns_None r) = snd r"
  by (simp add: returns_None_def split: option.splits sum.splits)

lemma snd_run_in_threadpool:
  "snd (run_in_threadpool func return_result args kwargs) = [Pool_submit func args kwargs]"
  by (simp add: run_in_threadpool_def)

lemma call_run_in_threadpool_positional:
  "call_run_in_threadpool func (a # rest) [] = run_in_threadpool func a rest []"
  by (simp add: call_run_in_threadpool_def)

text \<open>
  C6.  The code at a call with positional arguments: the wrapper made by
  \<open>run_in_threadpool_decorator\<close> hands its first positional argument to the
  parameter \<open>return_result\<close> of \<open>run_in_threadpool\<close>, so the callable is
  submitted with the remaining arguments only.  Called with 2 and 3, it submits
  the callable with 3 alone, where the wrapper made by \<open>run_in_thread_decorator\<close>
  starts a thread with 2 and 3; for \<open>add_two\<close> the wrapper then waits (2 is true)
  and raises the \<open>TypeError\<close> of the call with one argument.
\<close>

theorem run_in_threadpool_decorator_drops_first_argument:
  "run_in_threadpool_decorator func (a # rest) []
     = returns_None (run_in_threadpool func a rest [])
   \<and> snd (run_in_threadpool_decorator func [PInt 2, PInt 3] []) = [Pool_submit func [PInt 3] []]
   \<and> snd (run_in_thread_decorator func [PInt 2, PInt 3] []) = [Thread_start func [PInt 2, PInt 3] []]
   \<and> run_in_threadpool_decorator add_two [PInt 2, PInt 3] []
       = (Some (Inl (TypeError ''add_two() missing 1 required positional argument'')),
          [Pool_submit add_two [PInt 3] []])"
proof -
  have d: "run_in_threadpool_decorator f (x # xs) [] = returns_None (run_in_threadpool f x xs [])"
    for f x xs
    by (simp add: run_in_threadpool_decorator_def call_run_in_threadpool_positional)
  have t: "snd (run_in_thread_decorator func [PInt 2, PInt 3] [])
             = [Thread_start func [PInt 2, PInt 3] []]"
    by (simp add: run_in_thread_decorator_def snd_returns_None call_run_in_thread_def
        run_in_thread_def)
  have e: "run_in_threadpool add_two (PInt 2) [PInt 3] []
             = (Some (Inl (TypeError ''add_two() missing 1 required positional argument'')),
                [Pool_submit add_two [PInt 3] []])"
    by (simp add: run_in_threadpool_def add_two_def)
  show ?thesis
    using t by (simp add: d snd_returns_None snd_run_in_threadpool e) (simp add: returns_None_def)
qed

text \<open>
  C7.  For every callable and arguments, \<open>run_in_threadpool\<close> submits the callable
  with exactly these arguments.  With \<open>return_result\<close> true it returns the value
  the callable returns, and does not return while the callable does not complete;
  with \<open>return_result\<close> false it returns \<open>None\<close>, whatever the callable does.
\<close>

theorem run_in_threadpool_result:
  "(func args kwargs = Returns v \<longrightarrow>
      run_in_threadpool func (PBool True) args kwargs
        = (Some (Inr v), [Pool_submit func args kwargs]))
   \<and> (func args kwargs = Diverges \<longrightarrow>
      fst (run_in_threadpool func (PBool True) args kwargs) = None)
   \<and> run_in_threadpool func (PBool False) args kwargs
        = (Some (Inr PNone), [Pool_submit func args kwargs])"
  by (simp add: run_in_threadpool_def)

theorem run_in_threadpool_result_witness:
  "run_in_threadpool add_two (PBool True) [PInt 2, PInt 3] []
     = (Some (Inr (PInt 5)), [Pool_submit add_two [PInt 2, PInt 3] []])
   \<and> fst (run_in_threadpool forever (PBool True) [] []) = None
   \<and> fst (run_in_threadpool forever (PBool False) [] []) = Some (Inr PNone)"
proof -
  have a: "add_two [PInt 2, PInt 3] [] = Returns (PInt 5)"
    by (simp add: add_two_def)
  have d: "forever [] [] = Diverges"
    by (simp add: forever_def)
  show ?thesis
    using run_in_threadpool_result [of add_two "[PInt 2, PInt 3]" "[]" "PInt 5"]
      run_in_threadpool_result [of forever "[]" "[]" PNone] a d
    by simp
qed

section \<open>Properties of the formatter\<close>

lemma sgr_at_not_ESC: "c \<noteq> ESC \<Longrightarrow> sgr_at (c # cs) = None"
  by (simp add: sgr_at_def split: list.splits)

lemma ansi_codes_skip: "ESC \<notin> set xs \<Longrightarrow> ansi_codes (xs @ ys) = ansi_codes ys"
  by (induction xs) (auto simp: sgr_at_not_ESC)

lemma ansi_codes_plain: "ESC \<notin> set xs \<Longrightarrow> ansi_codes xs = []"
  using ansi_codes_skip [of xs "[]"] by simp

lemma ansi_codes_reset: "ansi_codes reset = [reset]"
  by (simp add: reset_def sgr_at_def is_param_def ESC_def)

lemma is_param_not_ESC: "is_param x \<Longrightarrow> x \<noteq> ESC"
  by (auto simp: is_param_def ESC_def)

lemma sgr_at_append_reset:
  assumes "xs \<noteq> []"
  shows "sgr_at (xs @ reset) = sgr_at xs"
proof (cases xs)
  case Nil
  with assms show ?thesis by simp
next
  case (Cons e ys)
  show ?thesis
  proof (cases ys)
    case Nil
    then show ?thesis
      using Cons by (simp add: sgr_at_def reset_def ESC_def)
  next
    case (Cons b rest)
    note ys = Cons
    show ?thesis
    proof (cases "\<forall>x \<in> set rest. is_param x")
      case True
      have np: "\<not> is_param ESC"
        using is_param_not_ESC by blast
      have d1: "dropWhile is_param rest = []"
        using True by simp
      have d2: "dropWhile is_param (rest @ reset) = reset"
        using True np by (simp add: dropWhile_append2 reset_def)
      have "sgr_at (e # b # rest @ reset) = None"
        unfolding sgr_at_def list.case d2 by (simp add: reset_def ESC_def)
      moreover have "sgr_at (e # b # rest) = None"
        unfolding sgr_at_def list.case d1 by simp
      ultimately show ?thesis
        using \<open>xs = e # ys\<close> ys by simp
    next
      case False
      then obtain x where x: "x \<in> set rest" "\<not> is_param x"
        by blast
      have d: "dropWhile is_param (rest @ reset) = dropWhile is_param rest @ reset"
        using x by (rule dropWhile_append1)
      have t: "takeWhile is_param (rest @ reset) = takeWhile is_param rest"
        using x by (rule takeWhile_append1)
      have ne: "dropWhile is_param rest \<noteq> []"
        using x by (auto simp: dropWhile_eq_Nil_conv)
      show ?thesis
        using \<open>xs = e # ys\<close> ys d t ne
        by (cases "dropWhile is_param rest") (simp_all add: sgr_at_def)
    qed
  qed
qed

lemma ansi_codes_append_reset: "ansi_codes (body @ reset) = ansi_codes body @ [reset]"
proof (induction body)
  case Nil
  then show ?case by (simp add: ansi_codes_reset)
next
  case (Cons c cs)
  have "sgr_at ((c # cs) @ reset) = sgr_at (c # cs)"
    by (rule sgr_at_append_reset) simp
  then show ?case
    using Cons.IH by (simp split: option.splits)
qed

lemma ansi_codes_sgr_prefix:
  assumes p: "\<forall>x \<in> set p. is_param x"
  shows "ansi_codes ((ESC # CHR ''['' # p @ ''m'') @ rest)
           = (ESC # CHR ''['' # p @ ''m'') # ansi_codes rest"
proof -
  have notm: "\<not> is_param CHR ''m''"
    by (simp add: is_param_def)
  have "ESC \<notin> set p"
    using p is_param_not_ESC by blast
  then have tl: "ESC \<notin> set (CHR ''['' # p @ ''m'')"
    by (simp add: ESC_def)
  have tw: "takeWhile is_param (p @ CHR ''m'' # rest) = p"
    using p notm by (simp add: takeWhile_append2)
  have dw: "dropWhile is_param (p @ CHR ''m'' # rest) = CHR ''m'' # rest"
    using p notm by (simp add: dropWhile_append2)
  have at: "sgr_at ((ESC # CHR ''['' # p @ ''m'') @ rest) = Some (ESC # CHR ''['' # p @ ''m'')"
    by (simp add: sgr_at_def tw dw)
  have "ansi_codes ((ESC # CHR ''['' # p @ ''m'') @ rest)
          = (ESC # CHR ''['' # p @ ''m'') # ansi_codes ((CHR ''['' # p @ ''m'') @ rest)"
    using at by simp
  also have "ansi_codes ((CHR ''['' # p @ ''m'') @ rest) = ansi_codes rest"
    by (rule ansi_codes_skip [OF tl])
  finally show ?thesis .
qed

lemma ansi_codes_color_prefix:
  assumes "c \<in> {blue, grey, yellow, red, bold_red}"
  shows "ansi_codes (c @ rest) = c # ansi_codes rest"
proof -
  have b: "ansi_codes (blue @ rest) = blue # ansi_codes rest"
    using ansi_codes_sgr_prefix [of "''94''" rest] by (simp add: blue_def is_param_def)
  have g: "ansi_codes (grey @ rest) = grey # ansi_codes rest"
    using ansi_codes_sgr_prefix [of "''90''" rest] by (simp add: grey_def is_param_def)
  have y: "ansi_codes (yellow @ rest) = yellow # ansi_codes rest"
    using ansi_codes_sgr_prefix [of "''93''" rest] by (simp add: yellow_def is_param_def)
  have r: "ansi_codes (red @ rest) = red # ansi_codes rest"
    using ansi_codes_sgr_prefix [of "''91''" rest] by (simp add: red_def is_param_def)
  have br: "ansi_codes (bold_red @ rest) = bold_red # ansi_codes rest"
    using ansi_codes_sgr_prefix [of "''31;1''" rest] by (simp add: bold_red_def is_param_def)
  from assms b g y r br show ?thesis by blast
qed

lemma ColoredFormatter_init_formats:
  assumes "ColoredFormatter_init validate name fmt colored = Inr self" and "l \<in> set levels"
  shows "formats self l
           = Some (if colored then color_of l @ (''['' @ name @ ''] - '' @ fmt) @ reset
                   else ''['' @ name @ ''] - '' @ fmt)"
proof -
  have l: "l = DEBUG \<or> l = INFO \<or> l = WARNING \<or> l = ERROR \<or> l = CRITICAL"
    using assms(2) by (simp add: levels_def)
  show ?thesis
    using assms(1) l
    by (auto simp: ColoredFormatter_init_def Let_def color_of_def
        DEBUG_def INFO_def WARNING_def ERROR_def CRITICAL_def split: option.splits)
qed

lemma ColoredFormatter_init_dom:
  assumes "ColoredFormatter_init validate name fmt colored = Inr self"
  shows "dom (formats self) = set levels"
  using assms
  by (auto simp: ColoredFormatter_init_def levels_def Let_def split: option.splits if_splits)

text \<open>
  C8, as stated, fails: the name and the template are inserted as they are given.
  With colours on and the name \<open>a\x1b[1mb\<close>, the template of level ERROR contains
  three ANSI sequences; with colours off and the template
  \<open>\x1b[31m%(message)s\<close>, the template of level ERROR contains one.
\<close>

theorem templates_keep_given_codes:
  "\<not> isl (ColoredFormatter_init accept_template (''a'' @ ESC # ''[1mb'') FORMAT True)
   \<and> map_option ansi_codes
        (formats (projr (ColoredFormatter_init accept_template (''a'' @ ESC # ''[1mb'') FORMAT True))
           ERROR)
       = Some [red, ESC # ''[1m'', reset]
   \<and> \<not> isl (ColoredFormatter_init accept_template ''app'' (ESC # ''[31m%(message)s'') False)
   \<and> map_option ansi_codes
        (formats (projr (ColoredFormatter_init accept_template ''app'' (ESC # ''[31m%(message)s'')
           False)) ERROR)
       = Some [ESC # ''[31m'']"
  by (simp add: ColoredFormatter_init_def accept_template_def Let_def FORMAT_def red_def reset_def
      sgr_at_def is_param_def ESC_def DEBUG_def INFO_def WARNING_def ERROR_def CRITICAL_def)

text \<open>
  C8, amended.  For every formatter the constructor returns and each of the five
  levels: with colours on the level's template is the level's colour code, the
  body \<open>[name] - template\<close> and the reset code, and the ANSI sequences it contains
  are the colour code, those of the body, and the reset code, in this order; with
  colours off the template is the body itself, the same for the five levels.  So
  for a component name and a template free of escape characters, the coloured
  template contains exactly one colour code and one reset code, around the body,
  and the uncoloured one contains no ANSI sequence and no escape character.
\<close>

theorem ColoredFormatter_templates:
  assumes "l \<in> set levels"
    and "ColoredFormatter_init validate name fmt True = Inr on"
    and "ColoredFormatter_init validate name fmt False = Inr off"
  shows "formats on l = Some (color_of l @ (''['' @ name @ ''] - '' @ fmt) @ reset)
       \<and> color_of l \<in> {blue, grey, yellow, red, bold_red} \<and> color_of l \<noteq> reset
       \<and> ansi_codes (color_of l @ (''['' @ name @ ''] - '' @ fmt) @ reset)
           = color_of l # ansi_codes (''['' @ name @ ''] - '' @ fmt) @ [reset]
       \<and> formats off l = Some (''['' @ name @ ''] - '' @ fmt)
       \<and> (ESC \<notin> set name \<and> ESC \<notin> set fmt \<longrightarrow>
            ansi_codes (color_of l @ (''['' @ name @ ''] - '' @ fmt) @ reset) = [color_of l, reset]
            \<and> ansi_codes (''['' @ name @ ''] - '' @ fmt) = []
            \<and> ESC \<notin> set (''['' @ name @ ''] - '' @ fmt))"
proof -
  let ?body = "''['' @ name @ ''] - '' @ fmt"
  have col: "color_of l \<in> {blue, grey, yellow, red, bold_red}"
    by (simp add: color_of_def)
  have ne: "color_of l \<noteq> reset"
    by (simp add: color_of_def blue_def grey_def yellow_def red_def bold_red_def reset_def)
  have on: "formats on l = Some (color_of l @ ?body @ reset)"
    using ColoredFormatter_init_formats [OF assms(2) assms(1)] by simp
  have off: "formats off l = Some ?body"
    using ColoredFormatter_init_formats [OF assms(3) assms(1)] by simp
  have codes: "ansi_codes (color_of l @ ?body @ reset) = color_of l # ansi_codes ?body @ [reset]"
    using ansi_codes_color_prefix [OF col, of "?body @ reset"] ansi_codes_append_reset [of ?body]
    by simp
  have plain: "ansi_codes ?body = [] \<and> ESC \<notin> set ?body"
    if "ESC \<notin> set name" and "ESC \<notin> set fmt"
  proof -
    have "ESC \<notin> set ?body"
      using that by (auto simp: ESC_def)
    then show ?thesis
      using ansi_codes_plain by blast
  qed
  show ?thesis
    using on off col ne codes plain by simp
qed

theorem ColoredFormatter_templates_witness:
  "formats (projr (ColoredFormatter_init accept_template ''app'' FORMAT True)) ERROR
       = Some (red @ ''[app] - '' @ FORMAT @ reset)
   \<and> ansi_codes (red @ ''[app] - '' @ FORMAT @ reset) = [red, reset]
   \<and> formats (projr (ColoredFormatter_init accept_template ''app'' FORMAT False)) ERROR
       = Some (''[app] - '' @ FORMAT)
   \<and> ansi_codes (''[app] - '' @ FORMAT) = []"
proof -
  have 1: "ESC \<notin> set ''app'' \<and> ESC \<notin> set FORMAT" by (simp add: ESC_def FORMAT_def)
  have 3: "ERROR \<in> set levels" by (simp add: levels_def)
  have 4: "color_of ERROR = red"
    by (simp add: color_of_def DEBUG_def INFO_def WARNING_def ERROR_def)
  have on: "ColoredFormatter_init accept_template ''app'' FORMAT True
              = Inr (projr (ColoredFormatter_init accept_template ''app'' FORMAT True))"
    by (simp add: ColoredFormatter_init_def accept_template_def Let_def)
  have off: "ColoredFormatter_init accept_template ''app'' FORMAT False
              = Inr (projr (ColoredFormatter_init accept_template ''app'' FORMAT False))"
    by (simp add: ColoredFormatter_init_def accept_template_def Let_def)
  show ?thesis
    using ColoredFormatter_templates [OF 3 on off] 1 by (simp add: 4)
qed

text \<open>
  C9, as stated, fails: \<open>format\<close> can raise for a record of an unknown level.
  The record of \<open>log(25, '%d items', 'x')\<close> goes to the library's formatter with
  its default template, which raises \<open>TypeError\<close> when it builds the message.
\<close>

theorem unknown_level_format_raises:
  "\<not> isl (ColoredFormatter_init accept_template ''app'' FORMAT True)
   \<and> levelno record_items \<notin> set levels
   \<and> ColoredFormatter_format logging_Formatter_format
        (projr (ColoredFormatter_init accept_template ''app'' FORMAT True)) record_items
       = Inl (TypeError ''%d format: a real number is required, not str'')"
  by (simp add: ColoredFormatter_format_def ColoredFormatter_init_def accept_template_def Let_def
      logging_Formatter_format_def getMessage_def record_items_def convert_def type_name_def
      levels_def DEBUG_def INFO_def WARNING_def ERROR_def CRITICAL_def)

text \<open>
  C9, amended.  For every formatter the constructor returns and every record whose
  level is none of the five, the table has no entry, the lookup yields \<open>None\<close>
  without raising, and \<open>format\<close> returns or raises exactly what the library's
  \<open>logging.Formatter(None).format(record)\<close> returns or raises: the record is
  rendered through the module's default template, and \<open>format\<close> adds no failure
  of its own.  The keys of the table are exactly the five levels, which are
  distinct, so each recognised level has one template.
\<close>

theorem ColoredFormatter_format_unknown_level:
  assumes "ColoredFormatter_init validate name fmt colored = Inr self"
    and "levelno r \<notin> set levels"
  shows "formats self (levelno r) = None
       \<and> ColoredFormatter_format Formatter_format self r = Formatter_format None r
       \<and> dom (formats self) = set levels
       \<and> distinct levels \<and> length levels = 5"
proof -
  have dom: "dom (formats self) = set levels"
    using ColoredFormatter_init_dom [OF assms(1)] .
  then have none: "formats self (levelno r) = None"
    using assms(2) by blast
  have d: "distinct levels \<and> length levels = 5"
    by (simp add: levels_def DEBUG_def INFO_def WARNING_def ERROR_def CRITICAL_def)
  show ?thesis
    using none dom d by (simp add: ColoredFormatter_format_def)
qed

theorem ColoredFormatter_format_unknown_level_witness:
  "ColoredFormatter_format logging_Formatter_format
     (projr (ColoredFormatter_init accept_template ''app'' FORMAT True)) record_hi = Inr ''hi''
   \<and> ColoredFormatter_format logging_Formatter_format
     (projr (ColoredFormatter_init accept_template ''app'' FORMAT True)) record_hi
       = logging_Formatter_format None record_hi"
proof -
  have h: "levelno record_hi \<notin> set levels"
    by (simp add: record_hi_def levels_def DEBUG_def INFO_def WARNING_def ERROR_def CRITICAL_def)
  have on: "ColoredFormatter_init accept_template ''app'' FORMAT True
              = Inr (projr (ColoredFormatter_init accept_template ''app'' FORMAT True))"
    by (simp add: ColoredFormatter_init_def accept_template_def Let_def)
  have v: "logging_Formatter_format None record_hi = Inr ''hi''"
    by (simp add: logging_Formatter_format_def getMessage_def record_hi_def record_dict_def
        convert_def str_of_def prepend_def)
  show ?thesis
    using ColoredFormatter_format_unknown_level [OF on h, of logging_Formatter_format] v by simp
qed

section \<open>Properties of the exception decorator\<close>

text \<open>
  C10.  The code when the wrapped function raises, with \<open>exceptions\<close> left at its
  default or given as a list, as annotated: the \<open>except\<close> clause names a list, so
  the wrapper raises \<open>TypeError\<close>; the callback is not called, the default value is
  not returned and the exception of the function is not the one that propagates.
\<close>

theorem catch_exception_decorator_list_clause:
  "func args kwargs = Raises e \<longrightarrow>
     catch_exception_decorator func callback None d args kwargs
       = (Some (Inl (TypeError
            ''catching classes that do not inherit from BaseException is not allowed'')), [])
     \<and> catch_exception_decorator func callback (Some (ClassList cs)) d args kwargs
       = (Some (Inl (TypeError
            ''catching classes that do not inherit from BaseException is not allowed'')), [])"
  by (simp add: catch_exception_decorator_def except_matches_def)

theorem catch_exception_decorator_list_clause_witness:
  "catch_exception_decorator div_zero (\<lambda>e. Returns PNone) None (PInt 0) [] []
     = (Some (Inl (TypeError
          ''catching classes that do not inherit from BaseException is not allowed'')), [])"
  using catch_exception_decorator_list_clause
    [of div_zero "[]" "[]" "ZeroDivisionError ''division by zero''" "\<lambda>e. Returns PNone" "PInt 0"]
  by (simp add: div_zero_def)

text \<open>
  With a tuple in place of the list the wrapper does what its parameters say: the
  callback receives the exception and the default value is returned.  A function
  that raises nothing returns its value through the wrapper in every case.
\<close>

lemma catch_exception_decorator_tuple_clause:
  "catch_exception_decorator div_zero (\<lambda>e. Returns PNone) (Some (ClassTuple [''Exception''])) (PInt 0) [] []
     = (Some (Inr (PInt 0)), [ZeroDivisionError ''division by zero''])"
  by (simp add: catch_exception_decorator_def except_matches_def div_zero_def ZeroDivisionError_def
      isinstance_def)

lemma catch_exception_decorator_no_exception:
  "func args kwargs = Returns v \<Longrightarrow>
     catch_exception_decorator func callback exceptions d args kwargs = (Some (Inr v), [])"
  by (simp add: catch_exception_decorator_def Let_def)

end
